theory Spec2Isabelle
  imports Main "HOL-Library.Word"
begin

section \<open>Data model\<close>

text \<open>
  The application keeps two pieces of state: the \<open>User\<close> table behind the Prisma client
  and the per-client session that \<open>useAppSession\<close> opens. A server function is modelled
  as a function from the state before the call to its outcome and the state after it.

  A character of a \<open>string\<close> stands for one code unit of a JavaScript string, so
  \<open>length\<close> is what \<open>z.string().min\<close> counts.
\<close>

type_synonym byte = "8 word"

text \<open>
  A row of the \<open>User\<close> table. The type of the \<open>id\<close> column is declared in the Prisma
  schema, which the functions below never inspect; it is a type parameter.
\<close>

record 'id User =
  u_id :: 'id
  u_email :: string
  u_password :: string
  u_role :: string
  u_first_name :: string
  u_last_name :: string

text \<open>
  \<open>session.data\<close> of \<open>useSession<SessionUser>\<close>: an object that holds some of the keys
  \<open>email\<close>, \<open>role\<close>, \<open>id\<close>; a fresh session holds none.
\<close>

record 'id SessionData =
  s_email :: "string option"
  s_role :: "string option"
  s_id :: "'id option"

record 'id World =
  users :: "'id User list"
  session :: "'id SessionData"

text \<open>
  What the code calls into and does not define: \<open>crypto.pbkdf2\<close> of Node
  (password, salt, iterations, key length, digest name; it yields an error or the derived
  key), the e-mail test of \<open>z.string().email()\<close>, and the \<open>id\<close> the database gives to a
  new row.
\<close>

record 'id Env =
  pbkdf2 :: "string \<Rightarrow> string \<Rightarrow> nat \<Rightarrow> nat \<Rightarrow> string \<Rightarrow> string + byte list"
  isEmail :: "string \<Rightarrow> bool"
  nextId :: "'id User list \<Rightarrow> 'id"

datatype ZodIssue = invalid_string string | too_small string nat

text \<open>
  What a server function can throw: a router redirect (\<open>to\<close>, \<open>statusCode\<close>), an
  \<open>Error\<close> with its message, the \<open>ZodError\<close> of a schema that rejects its input, or
  a request error of the Prisma client with its code.
\<close>

datatype thrown =
  Redirect string nat | Error string | ZodError "ZodIssue list" | PrismaError string

datatype 'a nullable = Null | NotNull 'a

text \<open>
  The object a server function returns. A key the object literal does not have is
  \<open>None\<close>.
\<close>

record Result =
  error :: bool
  message :: string
  userNotFound :: "bool option"
  userExists :: "bool option"
  issues :: "ZodIssue list nullable option"

text \<open>The \<open>select\<close> of \<open>getCurrentUser\<close>: five columns of the row.\<close>

record 'id UserProfile =
  p_id :: 'id
  p_email :: string
  p_role :: string
  p_first_name :: string
  p_last_name :: string

section \<open>Password hasher (\<open>app/utils/prisma.ts\<close>)\<close>

definition hexDigit :: "nat \<Rightarrow> char" where
  "hexDigit n = ''0123456789abcdef'' ! (n mod 16)"

text \<open>\<open>Buffer.toString('hex')\<close>: two lower-case digits for each byte, high nibble first.\<close>

definition toHex :: "byte list \<Rightarrow> string" where
  "toHex bs = concat (map (\<lambda>b. [hexDigit (unat b div 16), hexDigit (unat b mod 16)]) bs)"

text \<open>The promise of \<open>hashPassword\<close>: rejected with the error, or resolved with the hex string.\<close>

definition hashPassword :: "'id Env \<Rightarrow> string \<Rightarrow> thrown + string" where
  "hashPassword env password =
     (case pbkdf2 env password ''salt'' 100000 64 ''sha256'' of
        Inl err \<Rightarrow> Inl (Error err)
      | Inr derivedKey \<Rightarrow> Inr (toHex derivedKey))"

section \<open>User store and session store\<close>

text \<open>\<open>prismaClient.user.findUnique({ where: { email } })\<close>: the row with that e-mail, or null.\<close>

definition findUnique :: "'id User list \<Rightarrow> string \<Rightarrow> 'id User option" where
  "findUnique rows email = find (\<lambda>u. u_email u = email) rows"

text \<open>
  \<open>prismaClient.user.create\<close> with the four columns the signup passes. The column
  \<open>role\<close> takes the default of the table, \<open>'user'\<close>; the unique index on \<open>email\<close>
  fails the call when the e-mail is taken (code \<open>P2002\<close>).
\<close>

definition create ::
  "'id Env \<Rightarrow> 'id User list \<Rightarrow> string \<Rightarrow> string \<Rightarrow> string \<Rightarrow> string
     \<Rightarrow> thrown + ('id User \<times> 'id User list)" where
  "create env rows email password first_name last_name =
     (if findUnique rows email \<noteq> None
      then Inl (PrismaError ''P2002'')
      else let user = \<lparr>u_id = nextId env rows, u_email = email, u_password = password,
                       u_role = ''user'', u_first_name = first_name, u_last_name = last_name\<rparr>
           in Inr (user, rows @ [user]))"

text \<open>\<open>session.update({ email, role, id })\<close>: the three keys are assigned.\<close>

definition updateSession :: "'id SessionData \<Rightarrow> string \<Rightarrow> string \<Rightarrow> 'id \<Rightarrow> 'id SessionData" where
  "updateSession d email role ident = d\<lparr>s_email := Some email, s_role := Some role, s_id := Some ident\<rparr>"

text \<open>
  The e-mail a test \<open>!session.data.email\<close> lets through: the key is there and the
  string is not empty.
\<close>

definition sessionEmail :: "'id SessionData \<Rightarrow> string option" where
  "sessionEmail d = (case s_email d of None \<Rightarrow> None | Some e \<Rightarrow> if e = [] then None else Some e)"

section \<open>Input schemas\<close>

text \<open>
  The issues \<open>signinSchema\<close> and \<open>signupSchema\<close> find, in the order of the keys of the
  schema; no issue means that the input parses. \<open>redirectUrl\<close> is an optional string
  and raises no issue.
\<close>

definition signinSchema :: "'id Env \<Rightarrow> string \<Rightarrow> string \<Rightarrow> ZodIssue list" where
  "signinSchema env email password =
     (if isEmail env email then [] else [invalid_string ''email'']) @
     (if 6 \<le> length password then [] else [too_small ''password'' 6])"

definition signupSchema ::
  "'id Env \<Rightarrow> string \<Rightarrow> string \<Rightarrow> string \<Rightarrow> string \<Rightarrow> ZodIssue list" where
  "signupSchema env email password first_name last_name =
     (if isEmail env email then [] else [invalid_string ''email'']) @
     (if 6 \<le> length password then [] else [too_small ''password'' 6]) @
     (if 1 \<le> length first_name then [] else [too_small ''first_name'' 1]) @
     (if 1 \<le> length last_name then [] else [too_small ''last_name'' 1])"

section \<open>Session accessors (\<open>fetchSessionUser\<close>, \<open>getCurrentUser\<close>)\<close>

text \<open>
  The two files that define the route \<open>/_authed\<close>, \<open>src/unnamed/part_002\<close> and
  \<open>src/unnamed/part_003\<close>, have the same text for both accessors.
\<close>

definition fetchSessionUser :: "'id World \<Rightarrow> thrown + 'id SessionData option" where
  "fetchSessionUser w =
     (case sessionEmail (session w) of
        None \<Rightarrow> Inr None
      | Some _ \<Rightarrow> Inr (Some (session w)))"

definition selectProfile :: "'id User \<Rightarrow> 'id UserProfile" where
  "selectProfile u = \<lparr>p_id = u_id u, p_email = u_email u, p_role = u_role u,
                      p_first_name = u_first_name u, p_last_name = u_last_name u\<rparr>"

definition getCurrentUser :: "'id World \<Rightarrow> thrown + 'id UserProfile option" where
  "getCurrentUser w =
     (case sessionEmail (session w) of
        None \<Rightarrow> Inl (Error ''Not authenticated'')
      | Some email \<Rightarrow> Inr (map_option selectProfile (findUnique (users w) email)))"

section \<open>Login and signup, with a validator and a returned flag\<close>

text \<open>
  \<open>loginFn\<close> and \<open>signupFn\<close> of \<open>src/unnamed/part_002\<close>, built by
  \<open>createServerFn({ method: 'POST' }).validator(schema).handler(...)\<close>: the schema parses
  the input before the handler runs, and an input it rejects throws its \<open>ZodError\<close>.
  Only the columns of \<open>found\<close> that the \<open>select\<close> names are read.
\<close>

definition loginFn_handler ::
  "'id Env \<Rightarrow> string \<Rightarrow> string \<Rightarrow> 'id World \<Rightarrow> (thrown + Result) \<times> 'id World" where
  "loginFn_handler env email password w =
     (case findUnique (users w) email of
        None \<Rightarrow>
          (Inr \<lparr>error = True, message = ''User not found'', userNotFound = Some True,
                userExists = None, issues = None\<rparr>, w)
      | Some found \<Rightarrow>
          (case hashPassword env password of
             Inl err \<Rightarrow> (Inl err, w)
           | Inr hashedPassword \<Rightarrow>
               if u_password found \<noteq> hashedPassword
               then (Inr \<lparr>error = True, message = ''Incorrect password'',
                          userNotFound = Some True, userExists = None, issues = None\<rparr>, w)
               else (Inr \<lparr>error = False, message = ''Logged in'', userNotFound = Some False,
                          userExists = None, issues = None\<rparr>,
                     w\<lparr>session := updateSession (session w)
                                    (u_email found) (u_role found) (u_id found)\<rparr>)))"

definition loginFn ::
  "'id Env \<Rightarrow> string \<Rightarrow> string \<Rightarrow> 'id World \<Rightarrow> (thrown + Result) \<times> 'id World" where
  "loginFn env email password w =
     (case signinSchema env email password of
        [] \<Rightarrow> loginFn_handler env email password w
      | i # is \<Rightarrow> (Inl (ZodError (i # is)), w))"

definition signupFn_handler ::
  "'id Env \<Rightarrow> string \<Rightarrow> string \<Rightarrow> string \<Rightarrow> string \<Rightarrow> 'id World
     \<Rightarrow> (thrown + Result) \<times> 'id World" where
  "signupFn_handler env email password first_name last_name w =
     (case findUnique (users w) email of
        Some found \<Rightarrow>
          (Inr \<lparr>error = True, message = ''User already exists'', userNotFound = None,
                userExists = Some True, issues = None\<rparr>, w)
      | None \<Rightarrow>
          (case hashPassword env password of
             Inl err \<Rightarrow> (Inl err, w)
           | Inr hashedPassword \<Rightarrow>
               (case create env (users w) email hashedPassword first_name last_name of
                  Inl err \<Rightarrow> (Inl err, w)
                | Inr (user, rows) \<Rightarrow>
                    (Inr \<lparr>error = False, message = ''user created'', userNotFound = None,
                          userExists = None, issues = Some Null\<rparr>,
                     w\<lparr>users := rows,
                       session := updateSession (session w) email
                                    (if u_role user = [] then ''user'' else u_role user)
                                    (u_id user)\<rparr>))))"

definition signupFn ::
  "'id Env \<Rightarrow> string \<Rightarrow> string \<Rightarrow> string \<Rightarrow> string \<Rightarrow> 'id World
     \<Rightarrow> (thrown + Result) \<times> 'id World" where
  "signupFn env email password first_name last_name w =
     (case signupSchema env email password first_name last_name of
        [] \<Rightarrow> signupFn_handler env email password first_name last_name w
      | i # is \<Rightarrow> (Inl (ZodError (i # is)), w))"

section \<open>Login and signup, with a redirect thrown on success\<close>

text \<open>
  \<open>loginFn\<close> and \<open>signupFn\<close> of \<open>src/unnamed/part_003\<close>, built by
  \<open>createServerFn('POST', ...)\<close>: no validator in front
  of the handler, the login reads \<open>email\<close> and \<open>password\<close> from the form data as
  strings, the signup parses its payload after the lookup, and success throws a
  redirect once the session is written.
\<close>

definition loginFn_redirect ::
  "'id Env \<Rightarrow> string \<Rightarrow> string \<Rightarrow> 'id World \<Rightarrow> (thrown + Result) \<times> 'id World" where
  "loginFn_redirect env email password w =
     (case findUnique (users w) email of
        None \<Rightarrow>
          (Inr \<lparr>error = True, message = ''User not found'', userNotFound = Some True,
                userExists = None, issues = None\<rparr>, w)
      | Some found \<Rightarrow>
          (case hashPassword env password of
             Inl err \<Rightarrow> (Inl err, w)
           | Inr hashedPassword \<Rightarrow>
               if u_password found \<noteq> hashedPassword
               then (Inr \<lparr>error = True, message = ''Incorrect password'',
                          userNotFound = None, userExists = None, issues = None\<rparr>, w)
               else (Inl (Redirect ''/home'' 301),
                     w\<lparr>session := updateSession (session w)
                                    (u_email found) (u_role found) (u_id found)\<rparr>)))"

definition signupFn_redirect ::
  "'id Env \<Rightarrow> string \<Rightarrow> string \<Rightarrow> string \<Rightarrow> string \<Rightarrow> string option \<Rightarrow> 'id World
     \<Rightarrow> (thrown + Result) \<times> 'id World" where
  "signupFn_redirect env email password first_name last_name redirectUrl w =
     (case findUnique (users w) email of
        Some found \<Rightarrow>
          (Inr \<lparr>error = True, message = ''User already exists'', userNotFound = None,
                userExists = Some True, issues = None\<rparr>, w)
      | None \<Rightarrow>
          (case signupSchema env email password first_name last_name of
             i # is \<Rightarrow>
               (Inr \<lparr>error = True, message = ''Invalid input'', userNotFound = None,
                     userExists = None, issues = Some (NotNull (i # is))\<rparr>, w)
           | [] \<Rightarrow>
               (case hashPassword env password of
                  Inl err \<Rightarrow> (Inl err, w)
                | Inr hashedPassword \<Rightarrow>
                    (case create env (users w) email hashedPassword first_name last_name of
                       Inl err \<Rightarrow> (Inl err, w)
                     | Inr (user, rows) \<Rightarrow>
                         (Inl (Redirect (case redirectUrl of
                                           None \<Rightarrow> ''/''
                                         | Some url \<Rightarrow> if url = [] then ''/'' else url) 301),
                          w\<lparr>users := rows,
                            session := updateSession (session w) email
                                         (if u_role user = [] then ''user'' else u_role user)
                                         (u_id user)\<rparr>)))))"

section \<open>The guard of the protected routes\<close>




text \<open>
  The loader of the route \<open>/_authed/home\<close>: the profile of the current user, or the
  object \<open>{ status: 401, redirect: '/' }\<close> when \<open>getCurrentUser\<close> yields null.
\<close>

datatype 'id LoaderData = NoUser nat string | UserData "'id UserProfile"

definition loader :: "'id World \<Rightarrow> thrown + 'id LoaderData" where
  "loader w =
     (case getCurrentUser w of
        Inl err \<Rightarrow> Inl err
      | Inr None \<Rightarrow> Inr (NoUser 401 ''/'')
      | Inr (Some user) \<Rightarrow> Inr (UserData user))"

section \<open>A concrete installation\<close>

text \<open>
  A small environment and a few states on which the theorems below are exercised. The
  key derivation of \<open>demoEnv\<close> is a stand-in that fills the key with the length of the
  password; \<open>saltOnlyEnv\<close> answers only the call \<open>hashPassword\<close> makes, and the key
  derivation of \<open>failingEnv\<close> always fails. \<open>demoAdmin\<close> is
  the row of the seed script, \<open>shortUser\<close> a row provisioned with the five-letter
  password \<open>bob12\<close>; \<open>newAdmin\<close> is the row a signup with the data of the
  administrator creates in the empty table \<open>emptyWorld\<close>.
\<close>

definition demoEnv :: "nat Env" where
  "demoEnv = \<lparr>pbkdf2 = (\<lambda>password salt iterations keylen digest.
                  Inr (replicate keylen (of_nat (length password)))),
              isEmail = (\<lambda>s. CHR ''@'' \<in> set s),
              nextId = (\<lambda>rows. length rows + 1)\<rparr>"

definition saltOnlyEnv :: "unit Env" where
  "saltOnlyEnv = \<lparr>pbkdf2 = (\<lambda>password salt iterations keylen digest.
                      if salt = ''salt'' \<and> iterations = 100000 \<and> keylen = 64
                         \<and> digest = ''sha256''
                      then Inr (replicate 64 (of_nat (length password)))
                      else Inl ''unsupported''),
                  isEmail = (\<lambda>s. False),
                  nextId = (\<lambda>rows. ())\<rparr>"

definition demoAdmin :: "nat User" where
  "demoAdmin = \<lparr>u_id = 1, u_email = ''admin@example.com'',
                u_password = toHex (replicate 64 13), u_role = ''admin'',
                u_first_name = ''Admin'', u_last_name = ''User''\<rparr>"

definition shortUser :: "nat User" where
  "shortUser = \<lparr>u_id = 2, u_email = ''bob@example.com'',
                u_password = toHex (replicate 64 5), u_role = ''user'',
                u_first_name = ''Bob'', u_last_name = ''Short''\<rparr>"

definition noSession :: "nat SessionData" where
  "noSession = \<lparr>s_email = None, s_role = None, s_id = None\<rparr>"

definition demoWorld :: "nat World" where
  "demoWorld = \<lparr>users = [demoAdmin, shortUser], session = noSession\<rparr>"

definition adminSession :: "nat SessionData" where
  "adminSession = \<lparr>s_email = Some ''admin@example.com'', s_role = Some ''admin'', s_id = Some 1\<rparr>"

definition loggedInWorld :: "nat World" where
  "loggedInWorld = \<lparr>users = [demoAdmin, shortUser], session = adminSession\<rparr>"

definition staleWorld :: "nat World" where
  "staleWorld = \<lparr>users = [shortUser], session = adminSession\<rparr>"

definition failingEnv :: "nat Env" where
  "failingEnv = \<lparr>pbkdf2 = (\<lambda>password salt iterations keylen digest. Inl ''out of memory''),
                 isEmail = (\<lambda>s. CHR ''@'' \<in> set s),
                 nextId = (\<lambda>rows. length rows + 1)\<rparr>"

definition emptyWorld :: "nat World" where
  "emptyWorld = \<lparr>users = [], session = noSession\<rparr>"

definition newAdmin :: "nat User" where
  "newAdmin = \<lparr>u_id = 1, u_email = ''admin@example.com'',
               u_password = toHex (replicate 64 13), u_role = ''user'',
               u_first_name = ''Admin'', u_last_name = ''User''\<rparr>"

section \<open>The password hasher\<close>

lemma hexDigit_in_digits: "hexDigit n \<in> set ''0123456789abcdef''"
  unfolding hexDigit_def by (rule nth_mem) simp

lemma toHex_Nil: "toHex [] = []"
  by (simp add: toHex_def)

lemma toHex_Cons:
  "toHex (b # bs) = hexDigit (unat b div 16) # hexDigit (unat b mod 16) # toHex bs"
  by (simp add: toHex_def)

lemma length_toHex: "length (toHex bs) = 2 * length bs"
  by (induction bs) (simp_all add: toHex_Nil toHex_Cons)

lemma set_two_Cons: "a \<in> D \<Longrightarrow> b \<in> D \<Longrightarrow> set xs \<subseteq> D \<Longrightarrow> set (a # b # xs) \<subseteq> D"
  by simp

lemma set_toHex: "set (toHex bs) \<subseteq> set ''0123456789abcdef''"
proof (induction bs)
  case Nil
  show ?case by (simp add: toHex_Nil)
next
  case (Cons b bs)
  show ?case
    unfolding toHex_Cons
    by (rule set_two_Cons [OF hexDigit_in_digits hexDigit_in_digits Cons.IH])
qed

lemma hexDigit_inject:
  assumes "hexDigit m = hexDigit n" and "m < 16" and "n < 16"
  shows "m = n"
proof -
  have d: "distinct ''0123456789abcdef''" by simp
  have l: "length ''0123456789abcdef'' = 16" by simp
  from assms have "''0123456789abcdef'' ! m = ''0123456789abcdef'' ! n"
    by (simp add: hexDigit_def)
  with d l assms(2,3) show ?thesis
    by (metis nth_eq_iff_index_eq)
qed

lemma byte_nibbles_inject:
  fixes b c :: byte
  assumes hi: "hexDigit (unat b div 16) = hexDigit (unat c div 16)"
    and lo: "hexDigit (unat b mod 16) = hexDigit (unat c mod 16)"
  shows "b = c"
proof -
  have bb: "unat b < 256" using unsigned_less [of b] by simp
  have cc: "unat c < 256" using unsigned_less [of c] by simp
  from bb have b16: "unat b div 16 < 16" by simp
  from cc have c16: "unat c div 16 < 16" by simp
  from hi b16 c16 have h: "unat b div 16 = unat c div 16"
    by (rule hexDigit_inject)
  have "unat b mod 16 < 16" and "unat c mod 16 < 16" by simp_all
  with lo have m: "unat b mod 16 = unat c mod 16"
    by (rule hexDigit_inject)
  have "unat b = 16 * (unat b div 16) + unat b mod 16" by simp
  also have "\<dots> = 16 * (unat c div 16) + unat c mod 16" using h m by simp
  also have "\<dots> = unat c" by simp
  finally show ?thesis by (simp add: word_unat_eq_iff)
qed

lemma toHex_inject: "toHex bs = toHex cs \<Longrightarrow> bs = cs"
proof (induction bs arbitrary: cs)
  case Nil
  then show ?case by (cases cs) (simp_all add: toHex_Nil toHex_Cons)
next
  case (Cons b bs)
  show ?case
  proof (cases cs)
    case Nil
    with Cons.prems show ?thesis by (simp add: toHex_Nil toHex_Cons)
  next
    case (Cons c cs')
    with Cons.prems have "b = c" and "toHex bs = toHex cs'"
      by (simp_all add: toHex_Cons byte_nibbles_inject)
    with Cons.IH Cons show ?thesis by simp
  qed
qed

lemma toHex_example: "toHex [0x0d, 0xff, 0x10] = ''0dff10''"
  by (simp add: toHex_def hexDigit_def)

text \<open>
  Claim C6. \<open>hashPassword\<close> is the key derivation called with the salt \<open>'salt'\<close>,
  100000 iterations, a key of 64 bytes and the digest \<open>sha256\<close>, followed by the hex
  rendering: when that call yields a key the promise resolves with \<open>toHex\<close> of it, two
  digits a byte from the sixteen lower-case digits, 128 of them for the 64 bytes; when
  the call fails the promise is rejected with its error. Two calls of \<open>hashPassword\<close>
  give the same outcome exactly when that one call of the key derivation gives the same
  outcome, so the digest of a password is determined by the key derived for it and by
  nothing else.
\<close>

theorem hashPassword_deterministic:
  "(\<forall>derivedKey. pbkdf2 env password ''salt'' 100000 64 ''sha256'' = Inr derivedKey \<longrightarrow>
      hashPassword env password = Inr (toHex derivedKey) \<and>
      length (toHex derivedKey) = 2 * length derivedKey \<and>
      set (toHex derivedKey) \<subseteq> set ''0123456789abcdef'' \<and>
      (length derivedKey = 64 \<longrightarrow> length (toHex derivedKey) = 128)) \<and>
   (\<forall>err. pbkdf2 env password ''salt'' 100000 64 ''sha256'' = Inl err \<longrightarrow>
      hashPassword env password = Inl (Error err)) \<and>
   (hashPassword env password = hashPassword env' password' \<longleftrightarrow>
      pbkdf2 env password ''salt'' 100000 64 ''sha256''
        = pbkdf2 env' password' ''salt'' 100000 64 ''sha256'')"
proof (intro conjI allI impI)
  fix derivedKey
  assume k: "pbkdf2 env password ''salt'' 100000 64 ''sha256'' = Inr derivedKey"
  then show "hashPassword env password = Inr (toHex derivedKey)"
    by (simp add: hashPassword_def)
  show "length (toHex derivedKey) = 2 * length derivedKey"
    by (rule length_toHex)
  show "set (toHex derivedKey) \<subseteq> set ''0123456789abcdef''"
    by (rule set_toHex)
  assume "length derivedKey = 64"
  then show "length (toHex derivedKey) = 128"
    by (simp add: length_toHex)
next
  fix err
  assume "pbkdf2 env password ''salt'' 100000 64 ''sha256'' = Inl err"
  then show "hashPassword env password = Inl (Error err)"
    by (simp add: hashPassword_def)
next
  show "hashPassword env password = hashPassword env' password' \<longleftrightarrow>
      pbkdf2 env password ''salt'' 100000 64 ''sha256''
        = pbkdf2 env' password' ''salt'' 100000 64 ''sha256''"
    by (cases "pbkdf2 env password ''salt'' 100000 64 ''sha256''";
        cases "pbkdf2 env' password' ''salt'' 100000 64 ''sha256''")
       (auto simp: hashPassword_def dest: toHex_inject)
qed

theorem hashPassword_deterministic_witness:
  "pbkdf2 demoEnv ''abcdef'' ''salt'' 100000 64 ''sha256'' = Inr (replicate 64 6) \<and>
   length (replicate 64 (6 :: byte)) = 64 \<and>
   hashPassword demoEnv ''abcdef'' = Inr (toHex (replicate 64 6)) \<and>
   length (toHex (replicate 64 6)) = 128 \<and>
   set (toHex (replicate 64 6)) \<subseteq> set ''0123456789abcdef'' \<and>
   pbkdf2 demoEnv ''abcdef'' ''salt'' 100000 64 ''sha256''
     = pbkdf2 saltOnlyEnv ''abcdef'' ''salt'' 100000 64 ''sha256'' \<and>
   hashPassword demoEnv ''abcdef'' = hashPassword saltOnlyEnv ''abcdef'' \<and>
   pbkdf2 failingEnv ''abcdef'' ''salt'' 100000 64 ''sha256'' = Inl ''out of memory'' \<and>
   hashPassword failingEnv ''abcdef'' = Inl (Error ''out of memory'')"
proof -
  have key: "pbkdf2 demoEnv ''abcdef'' ''salt'' 100000 64 ''sha256'' = Inr (replicate 64 6)"
    by (simp add: demoEnv_def)
  have len: "length (replicate 64 (6 :: byte)) = 64"
    by simp
  have same: "pbkdf2 demoEnv ''abcdef'' ''salt'' 100000 64 ''sha256''
                = pbkdf2 saltOnlyEnv ''abcdef'' ''salt'' 100000 64 ''sha256''"
    by (simp add: demoEnv_def saltOnlyEnv_def)
  have fail: "pbkdf2 failingEnv ''abcdef'' ''salt'' 100000 64 ''sha256'' = Inl ''out of memory''"
    by (simp add: failingEnv_def)
  note t = hashPassword_deterministic [of demoEnv "''abcdef''" saltOnlyEnv "''abcdef''"]
  note f = hashPassword_deterministic [of failingEnv "''abcdef''" failingEnv "''abcdef''"]
  from t key len same have
    "hashPassword demoEnv ''abcdef'' = Inr (toHex (replicate 64 6))"
    "length (toHex (replicate 64 (6 :: byte))) = 128"
    "set (toHex (replicate 64 (6 :: byte))) \<subseteq> set ''0123456789abcdef''"
    "hashPassword demoEnv ''abcdef'' = hashPassword saltOnlyEnv ''abcdef''"
    by blast+
  moreover from f fail have "hashPassword failingEnv ''abcdef'' = Inl (Error ''out of memory'')"
    by blast
  ultimately show ?thesis using key len same fail by blast
qed


section \<open>The session accessors\<close>

lemma sessionEmail_None:
  "sessionEmail d = None \<longleftrightarrow> s_email d = None \<or> s_email d = Some []"
  by (simp add: sessionEmail_def split: option.splits)

lemma sessionEmail_Some:
  "sessionEmail d = Some e \<longleftrightarrow> s_email d = Some e \<and> e \<noteq> []"
  by (auto simp: sessionEmail_def split: option.splits)

lemma findUnique_repassword:
  "findUnique (map (\<lambda>u. u\<lparr>u_password := f u\<rparr>) rows) email
     = map_option (\<lambda>u. u\<lparr>u_password := f u\<rparr>) (findUnique rows email)"
  by (induction rows) (simp_all add: findUnique_def)

lemma selectProfile_repassword: "selectProfile (u\<lparr>u_password := p\<rparr>) = selectProfile u"
  by (simp add: selectProfile_def)

text \<open>
  Claim C8. In every state whose session holds no e-mail (the key is missing, or it is
  the empty string, which the test \<open>!session.data.email\<close> treats alike),
  \<open>getCurrentUser\<close> throws the error \<open>Not authenticated\<close> and \<open>fetchSessionUser\<close>
  returns null. \<open>fetchSessionUser\<close> throws in no state at all: it is the probe, and
  \<open>getCurrentUser\<close> the strict accessor.
\<close>

theorem no_session_accessors:
  "(s_email (session w) = None \<or> s_email (session w) = Some []
      \<longrightarrow> getCurrentUser w = Inl (Error ''Not authenticated'') \<and> fetchSessionUser w = Inr None) \<and>
   (\<exists>r. fetchSessionUser w = Inr r)"
proof (intro conjI impI)
  assume "s_email (session w) = None \<or> s_email (session w) = Some []"
  then have "sessionEmail (session w) = None"
    by (simp add: sessionEmail_None)
  then show "getCurrentUser w = Inl (Error ''Not authenticated'')"
    and "fetchSessionUser w = Inr None"
    by (simp_all add: getCurrentUser_def fetchSessionUser_def)
next
  show "\<exists>r. fetchSessionUser w = Inr r"
    by (cases "sessionEmail (session w)") (simp_all add: fetchSessionUser_def)
qed

theorem no_session_accessors_witness:
  "(s_email (session demoWorld) = None \<or> s_email (session demoWorld) = Some []) \<and>
   getCurrentUser demoWorld = Inl (Error ''Not authenticated'') \<and>
   fetchSessionUser demoWorld = Inr None"
proof -
  have "s_email (session demoWorld) = None \<or> s_email (session demoWorld) = Some []"
    by (simp add: demoWorld_def noSession_def)
  with no_session_accessors [of demoWorld] show ?thesis by blast
qed

text \<open>
  Claim C9. When the session holds a non-empty e-mail and the table has a row for it,
  \<open>getCurrentUser\<close> returns the five columns \<open>id\<close>, \<open>email\<close>, \<open>role\<close>,
  \<open>first_name\<close>, \<open>last_name\<close> of that row. The value has no password field, and in
  every state the outcome stays the same whatever is written into the password column
  of the rows.
\<close>

theorem getCurrentUser_projection:
  "(s_email (session w) = Some email \<and> email \<noteq> [] \<and> findUnique (users w) email = Some u
      \<longrightarrow> getCurrentUser w =
            Inr (Some \<lparr>p_id = u_id u, p_email = u_email u, p_role = u_role u,
                       p_first_name = u_first_name u, p_last_name = u_last_name u\<rparr>)) \<and>
   getCurrentUser (w\<lparr>users := map (\<lambda>u. u\<lparr>u_password := f u\<rparr>) (users w)\<rparr>) = getCurrentUser w"
proof (intro conjI impI)
  assume a: "s_email (session w) = Some email \<and> email \<noteq> [] \<and> findUnique (users w) email = Some u"
  then have "sessionEmail (session w) = Some email"
    by (simp add: sessionEmail_Some)
  with a show "getCurrentUser w =
            Inr (Some \<lparr>p_id = u_id u, p_email = u_email u, p_role = u_role u,
                       p_first_name = u_first_name u, p_last_name = u_last_name u\<rparr>)"
    by (simp add: getCurrentUser_def selectProfile_def)
next
  show "getCurrentUser (w\<lparr>users := map (\<lambda>u. u\<lparr>u_password := f u\<rparr>) (users w)\<rparr>) = getCurrentUser w"
  proof (cases "sessionEmail (session w)")
    case None
    then show ?thesis by (simp add: getCurrentUser_def)
  next
    case (Some e)
    then show ?thesis
      by (simp add: getCurrentUser_def findUnique_repassword option.map_comp comp_def
            selectProfile_repassword)
  qed
qed

theorem getCurrentUser_projection_witness:
  "s_email (session loggedInWorld) = Some ''admin@example.com'' \<and>
   ''admin@example.com'' \<noteq> [] \<and>
   findUnique (users loggedInWorld) ''admin@example.com'' = Some demoAdmin \<and>
   getCurrentUser loggedInWorld =
     Inr (Some \<lparr>p_id = 1, p_email = ''admin@example.com'', p_role = ''admin'',
                p_first_name = ''Admin'', p_last_name = ''User''\<rparr>)"
proof -
  have h: "s_email (session loggedInWorld) = Some ''admin@example.com'' \<and>
     ''admin@example.com'' \<noteq> [] \<and>
     findUnique (users loggedInWorld) ''admin@example.com'' = Some demoAdmin"
    by (simp add: loggedInWorld_def adminSession_def findUnique_def demoAdmin_def)
  from getCurrentUser_projection [of loggedInWorld "''admin@example.com''" demoAdmin] h
  have "getCurrentUser loggedInWorld =
          Inr (Some \<lparr>p_id = u_id demoAdmin, p_email = u_email demoAdmin, p_role = u_role demoAdmin,
                     p_first_name = u_first_name demoAdmin, p_last_name = u_last_name demoAdmin\<rparr>)"
    by blast
  with h show ?thesis by (simp add: demoAdmin_def)
qed

text \<open>
  Claim C10. When the session holds a non-empty e-mail and the table has no row for it,
  \<open>getCurrentUser\<close> returns null: neither a user nor the error \<open>Not authenticated\<close>.
  The loader of the home page then returns its \<open>{ status: 401, redirect: '/' }\<close> object.
\<close>

theorem getCurrentUser_stale_session:
  "s_email (session w) = Some email \<and> email \<noteq> [] \<and> findUnique (users w) email = None
     \<longrightarrow> getCurrentUser w = Inr None \<and> loader w = Inr (NoUser 401 ''/'')"
proof
  assume a: "s_email (session w) = Some email \<and> email \<noteq> [] \<and> findUnique (users w) email = None"
  then have "sessionEmail (session w) = Some email"
    by (simp add: sessionEmail_Some)
  with a have "getCurrentUser w = Inr None"
    by (simp add: getCurrentUser_def)
  then show "getCurrentUser w = Inr None \<and> loader w = Inr (NoUser 401 ''/'')"
    by (simp add: loader_def)
qed

theorem getCurrentUser_stale_session_witness:
  "s_email (session staleWorld) = Some ''admin@example.com'' \<and>
   ''admin@example.com'' \<noteq> [] \<and>
   findUnique (users staleWorld) ''admin@example.com'' = None \<and>
   getCurrentUser staleWorld = Inr None \<and> loader staleWorld = Inr (NoUser 401 ''/'')"
proof -
  have h: "s_email (session staleWorld) = Some ''admin@example.com'' \<and>
     ''admin@example.com'' \<noteq> [] \<and>
     findUnique (users staleWorld) ''admin@example.com'' = None"
    by (simp add: staleWorld_def adminSession_def findUnique_def shortUser_def)
  with getCurrentUser_stale_session [of staleWorld "''admin@example.com''"]
  show ?thesis by blast
qed

section \<open>The guard of the protected routes: properties\<close>







section \<open>Login and signup: properties\<close>

lemma signinSchema_Nil:
  "signinSchema env email password = [] \<longleftrightarrow> isEmail env email \<and> 6 \<le> length password"
  by (simp add: signinSchema_def)

lemma signupSchema_Nil:
  "signupSchema env email password first_name last_name = [] \<longleftrightarrow>
     isEmail env email \<and> 6 \<le> length password \<and> first_name \<noteq> [] \<and> last_name \<noteq> []"
  by (auto simp: signupSchema_def Suc_le_eq)

lemma loginFn_accepted:
  "signinSchema env email password = [] \<Longrightarrow>
     loginFn env email password w = loginFn_handler env email password w"
  by (simp add: loginFn_def)

lemma loginFn_rejected:
  "signinSchema env email password \<noteq> [] \<Longrightarrow>
     loginFn env email password w = (Inl (ZodError (signinSchema env email password)), w)"
  by (cases "signinSchema env email password") (simp_all add: loginFn_def)

lemma signupFn_accepted:
  "signupSchema env email password first_name last_name = [] \<Longrightarrow>
     signupFn env email password first_name last_name w
       = signupFn_handler env email password first_name last_name w"
  by (simp add: signupFn_def)

lemma signupFn_rejected:
  "signupSchema env email password first_name last_name \<noteq> [] \<Longrightarrow>
     signupFn env email password first_name last_name w
       = (Inl (ZodError (signupSchema env email password first_name last_name)), w)"
  by (cases "signupSchema env email password first_name last_name") (simp_all add: signupFn_def)

lemma updateSession_all:
  "updateSession d email role ident = \<lparr>s_email = Some email, s_role = Some role, s_id = Some ident\<rparr>"
  by (simp add: updateSession_def)

lemma findUnique_demoAdmin: "findUnique (users demoWorld) ''admin@example.com'' = Some demoAdmin"
  by (simp add: findUnique_def demoWorld_def demoAdmin_def)

lemma findUnique_shortUser: "findUnique (users demoWorld) ''bob@example.com'' = Some shortUser"
  by (simp add: findUnique_def demoWorld_def demoAdmin_def shortUser_def)

lemma hashPassword_demoEnv:
  "hashPassword demoEnv password = Inr (toHex (replicate 64 (of_nat (length password))))"
  by (simp add: hashPassword_def demoEnv_def)

lemma replicate_64: "replicate 64 x = x # replicate 63 x"
  by (simp add: numeral_eq_Suc)

text \<open>
  Claim C1, as amended. Take a login for which the table has a row for the e-mail and
  the hash of the password equals the stored digest. The redirecting variant writes
  exactly the \<open>email\<close>, \<open>role\<close> and \<open>id\<close> of that row into the session, leaves the
  table alone and throws a redirect to \<open>/home\<close> with status 301. The validating
  variant, for an input its schema accepts, writes the same session, leaves the table
  alone and returns \<open>{ error: false, userNotFound: false, message: 'Logged in' }\<close>; for
  an input its schema rejects it throws the issues of the schema and writes nothing.
\<close>

theorem login_success:
  "findUnique (users w) email = Some u \<and> hashPassword env password = Inr (u_password u) \<longrightarrow>
     loginFn_redirect env email password w =
       (Inl (Redirect ''/home'' 301),
        w\<lparr>session := \<lparr>s_email = Some (u_email u), s_role = Some (u_role u), s_id = Some (u_id u)\<rparr>\<rparr>) \<and>
     (signinSchema env email password = [] \<longrightarrow>
        loginFn env email password w =
          (Inr \<lparr>error = False, message = ''Logged in'', userNotFound = Some False,
                userExists = None, issues = None\<rparr>,
           w\<lparr>session := \<lparr>s_email = Some (u_email u), s_role = Some (u_role u), s_id = Some (u_id u)\<rparr>\<rparr>)) \<and>
     (signinSchema env email password \<noteq> [] \<longrightarrow>
        loginFn env email password w = (Inl (ZodError (signinSchema env email password)), w))"
proof (intro impI conjI)
  assume a: "findUnique (users w) email = Some u \<and> hashPassword env password = Inr (u_password u)"
  then show "loginFn_redirect env email password w =
       (Inl (Redirect ''/home'' 301),
        w\<lparr>session := \<lparr>s_email = Some (u_email u), s_role = Some (u_role u), s_id = Some (u_id u)\<rparr>\<rparr>)"
    by (simp add: loginFn_redirect_def updateSession_all)
  {
    assume "signinSchema env email password = []"
    then have "loginFn env email password w = loginFn_handler env email password w"
      by (rule loginFn_accepted)
    with a show "loginFn env email password w =
          (Inr \<lparr>error = False, message = ''Logged in'', userNotFound = Some False,
                userExists = None, issues = None\<rparr>,
           w\<lparr>session := \<lparr>s_email = Some (u_email u), s_role = Some (u_role u), s_id = Some (u_id u)\<rparr>\<rparr>)"
      by (simp add: loginFn_handler_def updateSession_all)
  }
  {
    assume "signinSchema env email password \<noteq> []"
    then show "loginFn env email password w
                 = (Inl (ZodError (signinSchema env email password)), w)"
      by (rule loginFn_rejected)
  }
qed

theorem login_success_witness:
  "findUnique (users demoWorld) ''admin@example.com'' = Some demoAdmin \<and>
   hashPassword demoEnv ''adminpassword'' = Inr (u_password demoAdmin) \<and>
   signinSchema demoEnv ''admin@example.com'' ''adminpassword'' = [] \<and>
   loginFn_redirect demoEnv ''admin@example.com'' ''adminpassword'' demoWorld =
     (Inl (Redirect ''/home'' 301), loggedInWorld) \<and>
   loginFn demoEnv ''admin@example.com'' ''adminpassword'' demoWorld =
     (Inr \<lparr>error = False, message = ''Logged in'', userNotFound = Some False,
           userExists = None, issues = None\<rparr>, loggedInWorld) \<and>
   findUnique (users demoWorld) ''bob@example.com'' = Some shortUser \<and>
   hashPassword demoEnv ''bob12'' = Inr (u_password shortUser) \<and>
   signinSchema demoEnv ''bob@example.com'' ''bob12'' \<noteq> [] \<and>
   loginFn demoEnv ''bob@example.com'' ''bob12'' demoWorld =
     (Inl (ZodError (signinSchema demoEnv ''bob@example.com'' ''bob12'')), demoWorld)"
proof -
  have h: "findUnique (users demoWorld) ''admin@example.com'' = Some demoAdmin \<and>
           hashPassword demoEnv ''adminpassword'' = Inr (u_password demoAdmin)"
    by (simp add: findUnique_demoAdmin hashPassword_demoEnv) (simp add: demoAdmin_def)
  have v: "signinSchema demoEnv ''admin@example.com'' ''adminpassword'' = []"
    by (simp add: signinSchema_Nil demoEnv_def)
  have s: "demoWorld\<lparr>session := \<lparr>s_email = Some (u_email demoAdmin),
             s_role = Some (u_role demoAdmin), s_id = Some (u_id demoAdmin)\<rparr>\<rparr> = loggedInWorld"
    by (simp add: demoWorld_def loggedInWorld_def adminSession_def demoAdmin_def)
  have h2: "findUnique (users demoWorld) ''bob@example.com'' = Some shortUser \<and>
            hashPassword demoEnv ''bob12'' = Inr (u_password shortUser)"
    by (simp add: findUnique_shortUser hashPassword_demoEnv) (simp add: shortUser_def)
  have v2: "signinSchema demoEnv ''bob@example.com'' ''bob12'' \<noteq> []"
    by (simp add: signinSchema_Nil)
  from login_success [of demoWorld "''admin@example.com''" demoAdmin demoEnv "''adminpassword''"]
    h v s
  have "loginFn_redirect demoEnv ''admin@example.com'' ''adminpassword'' demoWorld =
     (Inl (Redirect ''/home'' 301), loggedInWorld)"
    and "loginFn demoEnv ''admin@example.com'' ''adminpassword'' demoWorld =
     (Inr \<lparr>error = False, message = ''Logged in'', userNotFound = Some False,
           userExists = None, issues = None\<rparr>, loggedInWorld)"
    by simp_all
  moreover from login_success [of demoWorld "''bob@example.com''" shortUser demoEnv "''bob12''"]
    h2 v2
  have "loginFn demoEnv ''bob@example.com'' ''bob12'' demoWorld =
     (Inl (ZodError (signinSchema demoEnv ''bob@example.com'' ''bob12'')), demoWorld)"
    by blast
  ultimately show ?thesis using h v h2 v2 by blast
qed


text \<open>
  The claim C1 as first stated fails twice. With the right credentials of the seeded
  administrator the redirecting variant returns no object: it throws the redirect. And
  the validating variant rejects the right credentials of \<open>shortUser\<close>, whose password
  has five letters, before the table is read.
\<close>

theorem login_success_counterexample:
  "findUnique (users demoWorld) ''admin@example.com'' = Some demoAdmin \<and>
   hashPassword demoEnv ''adminpassword'' = Inr (u_password demoAdmin) \<and>
   fst (loginFn_redirect demoEnv ''admin@example.com'' ''adminpassword'' demoWorld)
     = Inl (Redirect ''/home'' 301) \<and>
   findUnique (users demoWorld) ''bob@example.com'' = Some shortUser \<and>
   hashPassword demoEnv ''bob12'' = Inr (u_password shortUser) \<and>
   loginFn demoEnv ''bob@example.com'' ''bob12'' demoWorld
     = (Inl (ZodError [too_small ''password'' 6]), demoWorld)"
proof (intro conjI)
  show a: "findUnique (users demoWorld) ''admin@example.com'' = Some demoAdmin"
    by (rule findUnique_demoAdmin)
  show b: "hashPassword demoEnv ''adminpassword'' = Inr (u_password demoAdmin)"
    by (simp add: hashPassword_demoEnv) (simp add: demoAdmin_def)
  from a b show "fst (loginFn_redirect demoEnv ''admin@example.com'' ''adminpassword'' demoWorld)
     = Inl (Redirect ''/home'' 301)"
    by (simp add: loginFn_redirect_def)
  show "findUnique (users demoWorld) ''bob@example.com'' = Some shortUser"
    by (rule findUnique_shortUser)
  show "hashPassword demoEnv ''bob12'' = Inr (u_password shortUser)"
    by (simp add: hashPassword_demoEnv) (simp add: shortUser_def)
  show "loginFn demoEnv ''bob@example.com'' ''bob12'' demoWorld
     = (Inl (ZodError [too_small ''password'' 6]), demoWorld)"
    by (simp add: loginFn_def signinSchema_def demoEnv_def)
qed

text \<open>
  Claim C2, as amended. When the table has a row for the e-mail and the hash of the
  password differs from the stored digest, the session and the table stay as they
  are. The redirecting variant returns \<open>{ error: true, message: 'Incorrect password' }\<close>;
  the validating variant, for an input its schema accepts, returns an object with
  \<open>error: true\<close> and that message, and for an input its schema rejects it throws the
  issues of the schema.
\<close>

theorem login_wrong_password:
  "findUnique (users w) email = Some u \<and> hashPassword env password = Inr digest
     \<and> digest \<noteq> u_password u \<longrightarrow>
     loginFn_redirect env email password w =
       (Inr \<lparr>error = True, message = ''Incorrect password'', userNotFound = None,
             userExists = None, issues = None\<rparr>, w) \<and>
     (signinSchema env email password = [] \<longrightarrow>
        (\<exists>r. loginFn env email password w = (Inr r, w) \<and> error r \<and>
              message r = ''Incorrect password'')) \<and>
     (signinSchema env email password \<noteq> [] \<longrightarrow>
        loginFn env email password w = (Inl (ZodError (signinSchema env email password)), w))"
proof (intro impI conjI)
  assume a: "findUnique (users w) email = Some u \<and> hashPassword env password = Inr digest
     \<and> digest \<noteq> u_password u"
  then have ne: "u_password u \<noteq> digest" by blast
  with a show "loginFn_redirect env email password w =
       (Inr \<lparr>error = True, message = ''Incorrect password'', userNotFound = None,
             userExists = None, issues = None\<rparr>, w)"
    by (simp add: loginFn_redirect_def)
  {
    assume "signinSchema env email password = []"
    then have "loginFn env email password w = loginFn_handler env email password w"
      by (rule loginFn_accepted)
    with a ne have "loginFn env email password w =
         (Inr \<lparr>error = True, message = ''Incorrect password'', userNotFound = Some True,
               userExists = None, issues = None\<rparr>, w)"
      by (simp add: loginFn_handler_def)
    then show "\<exists>r. loginFn env email password w = (Inr r, w) \<and> error r \<and>
              message r = ''Incorrect password''"
      by simp
  }
  {
    assume "signinSchema env email password \<noteq> []"
    then show "loginFn env email password w
                 = (Inl (ZodError (signinSchema env email password)), w)"
      by (rule loginFn_rejected)
  }
qed

theorem login_wrong_password_witness:
  "findUnique (users demoWorld) ''admin@example.com'' = Some demoAdmin \<and>
   hashPassword demoEnv ''letmein1'' = Inr (toHex (replicate 64 8)) \<and>
   toHex (replicate 64 8) \<noteq> u_password demoAdmin \<and>
   signinSchema demoEnv ''admin@example.com'' ''letmein1'' = [] \<and>
   loginFn_redirect demoEnv ''admin@example.com'' ''letmein1'' demoWorld =
     (Inr \<lparr>error = True, message = ''Incorrect password'', userNotFound = None,
           userExists = None, issues = None\<rparr>, demoWorld) \<and>
   (\<exists>r. loginFn demoEnv ''admin@example.com'' ''letmein1'' demoWorld = (Inr r, demoWorld) \<and>
        error r \<and> message r = ''Incorrect password'')"
proof -
  have h: "findUnique (users demoWorld) ''admin@example.com'' = Some demoAdmin \<and>
     hashPassword demoEnv ''letmein1'' = Inr (toHex (replicate 64 8)) \<and>
     toHex (replicate 64 8) \<noteq> u_password demoAdmin"
    by (simp add: findUnique_demoAdmin hashPassword_demoEnv)
       (simp add: demoAdmin_def replicate_64 toHex_Cons hexDigit_def)
  have v: "signinSchema demoEnv ''admin@example.com'' ''letmein1'' = []"
    by (simp add: signinSchema_Nil demoEnv_def)
  from login_wrong_password [of demoWorld "''admin@example.com''" demoAdmin demoEnv
         "''letmein1''" "toHex (replicate 64 8)"] h v
  show ?thesis by blast
qed

text \<open>
  The claim C2 as first stated fails on the validating variant at the wrong password
  \<open>bad\<close>: the schema rejects its three letters and no \<open>Incorrect password\<close> comes back.
\<close>

theorem login_wrong_password_counterexample:
  "findUnique (users demoWorld) ''admin@example.com'' = Some demoAdmin \<and>
   hashPassword demoEnv ''bad'' = Inr (toHex (replicate 64 3)) \<and>
   toHex (replicate 64 3) \<noteq> u_password demoAdmin \<and>
   loginFn demoEnv ''admin@example.com'' ''bad'' demoWorld
     = (Inl (ZodError [too_small ''password'' 6]), demoWorld)"
proof (intro conjI)
  show "findUnique (users demoWorld) ''admin@example.com'' = Some demoAdmin"
    by (rule findUnique_demoAdmin)
  show "hashPassword demoEnv ''bad'' = Inr (toHex (replicate 64 3))"
    by (simp add: hashPassword_demoEnv)
  show "toHex (replicate 64 3) \<noteq> u_password demoAdmin"
    by (simp add: demoAdmin_def replicate_64 toHex_Cons hexDigit_def)
  show "loginFn demoEnv ''admin@example.com'' ''bad'' demoWorld
     = (Inl (ZodError [too_small ''password'' 6]), demoWorld)"
    by (simp add: loginFn_def signinSchema_def demoEnv_def)
qed

text \<open>
  What the validating variant returns for a wrong password that its schema accepts:
  the object carries \<open>userNotFound: true\<close> although the row was found.
\<close>

lemma loginFn_wrong_password_tag:
  "fst (loginFn demoEnv ''admin@example.com'' ''letmein1'' demoWorld) =
     Inr \<lparr>error = True, message = ''Incorrect password'', userNotFound = Some True,
           userExists = None, issues = None\<rparr>"
  by (simp add: loginFn_def signinSchema_def loginFn_handler_def findUnique_demoAdmin
        hashPassword_demoEnv)
     (simp add: demoEnv_def demoAdmin_def replicate_64 toHex_Cons hexDigit_def)

text \<open>
  Claim C3, as amended. When the table already has a row for the e-mail, a signup
  changes neither the session nor the table. The redirecting variant returns
  \<open>{ error: true, userExists: true, message: 'User already exists' }\<close> for every input;
  the validating variant returns it for every input its schema accepts and throws the
  issues of the schema for the others.
\<close>

theorem signup_existing_email:
  "findUnique (users w) email = Some u \<longrightarrow>
     signupFn_redirect env email password first_name last_name redirectUrl w =
       (Inr \<lparr>error = True, message = ''User already exists'', userNotFound = None,
             userExists = Some True, issues = None\<rparr>, w) \<and>
     (signupSchema env email password first_name last_name = [] \<longrightarrow>
        signupFn env email password first_name last_name w =
          (Inr \<lparr>error = True, message = ''User already exists'', userNotFound = None,
                userExists = Some True, issues = None\<rparr>, w)) \<and>
     (signupSchema env email password first_name last_name \<noteq> [] \<longrightarrow>
        signupFn env email password first_name last_name w =
          (Inl (ZodError (signupSchema env email password first_name last_name)), w))"
proof (intro impI conjI)
  assume a: "findUnique (users w) email = Some u"
  then show "signupFn_redirect env email password first_name last_name redirectUrl w =
       (Inr \<lparr>error = True, message = ''User already exists'', userNotFound = None,
             userExists = Some True, issues = None\<rparr>, w)"
    by (simp add: signupFn_redirect_def)
  {
    assume "signupSchema env email password first_name last_name = []"
    then have "signupFn env email password first_name last_name w
                 = signupFn_handler env email password first_name last_name w"
      by (rule signupFn_accepted)
    with a show "signupFn env email password first_name last_name w =
          (Inr \<lparr>error = True, message = ''User already exists'', userNotFound = None,
                userExists = Some True, issues = None\<rparr>, w)"
      by (simp add: signupFn_handler_def)
  }
  {
    assume "signupSchema env email password first_name last_name \<noteq> []"
    then show "signupFn env email password first_name last_name w =
          (Inl (ZodError (signupSchema env email password first_name last_name)), w)"
      by (rule signupFn_rejected)
  }
qed

theorem signup_existing_email_witness:
  "findUnique (users demoWorld) ''admin@example.com'' = Some demoAdmin \<and>
   signupSchema demoEnv ''admin@example.com'' ''adminpassword'' ''Admin'' ''User'' = [] \<and>
   signupFn_redirect demoEnv ''admin@example.com'' ''adminpassword'' ''Admin'' ''User'' None demoWorld =
     (Inr \<lparr>error = True, message = ''User already exists'', userNotFound = None,
           userExists = Some True, issues = None\<rparr>, demoWorld) \<and>
   signupFn demoEnv ''admin@example.com'' ''adminpassword'' ''Admin'' ''User'' demoWorld =
     (Inr \<lparr>error = True, message = ''User already exists'', userNotFound = None,
           userExists = Some True, issues = None\<rparr>, demoWorld)"
proof -
  have v: "signupSchema demoEnv ''admin@example.com'' ''adminpassword'' ''Admin'' ''User'' = []"
    by (simp add: signupSchema_Nil demoEnv_def)
  from signup_existing_email [of demoWorld "''admin@example.com''" demoAdmin demoEnv
         "''adminpassword''" "''Admin''" "''User''" None] findUnique_demoAdmin v
  show ?thesis by blast
qed

text \<open>
  The claim C3 as first stated fails on the validating variant: a signup for the e-mail
  of the administrator with the password \<open>abc\<close> is rejected by the schema and does
  not report \<open>userExists\<close>.
\<close>

theorem signup_existing_email_counterexample:
  "findUnique (users demoWorld) ''admin@example.com'' = Some demoAdmin \<and>
   signupFn demoEnv ''admin@example.com'' ''abc'' ''Admin'' ''User'' demoWorld
     = (Inl (ZodError [too_small ''password'' 6]), demoWorld)"
proof (intro conjI)
  show "findUnique (users demoWorld) ''admin@example.com'' = Some demoAdmin"
    by (rule findUnique_demoAdmin)
  show "signupFn demoEnv ''admin@example.com'' ''abc'' ''Admin'' ''User'' demoWorld
     = (Inl (ZodError [too_small ''password'' 6]), demoWorld)"
    by (simp add: signupFn_def signupSchema_def demoEnv_def)
qed

text \<open>
  Claim C4, as amended. When the table has no row for the e-mail, a login changes
  neither the session nor the table. The redirecting variant returns
  \<open>{ error: true, userNotFound: true, message: 'User not found' }\<close> for every input;
  the validating variant returns it for every input its schema accepts and throws the
  issues of the schema for the others.
\<close>

theorem login_unknown_email:
  "findUnique (users w) email = None \<longrightarrow>
     loginFn_redirect env email password w =
       (Inr \<lparr>error = True, message = ''User not found'', userNotFound = Some True,
             userExists = None, issues = None\<rparr>, w) \<and>
     (signinSchema env email password = [] \<longrightarrow>
        loginFn env email password w =
          (Inr \<lparr>error = True, message = ''User not found'', userNotFound = Some True,
                userExists = None, issues = None\<rparr>, w)) \<and>
     (signinSchema env email password \<noteq> [] \<longrightarrow>
        loginFn env email password w = (Inl (ZodError (signinSchema env email password)), w))"
proof (intro impI conjI)
  assume a: "findUnique (users w) email = None"
  then show "loginFn_redirect env email password w =
       (Inr \<lparr>error = True, message = ''User not found'', userNotFound = Some True,
             userExists = None, issues = None\<rparr>, w)"
    by (simp add: loginFn_redirect_def)
  {
    assume "signinSchema env email password = []"
    then have "loginFn env email password w = loginFn_handler env email password w"
      by (rule loginFn_accepted)
    with a show "loginFn env email password w =
          (Inr \<lparr>error = True, message = ''User not found'', userNotFound = Some True,
                userExists = None, issues = None\<rparr>, w)"
      by (simp add: loginFn_handler_def)
  }
  {
    assume "signinSchema env email password \<noteq> []"
    then show "loginFn env email password w
                 = (Inl (ZodError (signinSchema env email password)), w)"
      by (rule loginFn_rejected)
  }
qed

theorem login_unknown_email_witness:
  "findUnique (users demoWorld) ''carol@example.com'' = None \<and>
   signinSchema demoEnv ''carol@example.com'' ''secret1'' = [] \<and>
   loginFn_redirect demoEnv ''carol@example.com'' ''secret1'' demoWorld =
     (Inr \<lparr>error = True, message = ''User not found'', userNotFound = Some True,
           userExists = None, issues = None\<rparr>, demoWorld) \<and>
   loginFn demoEnv ''carol@example.com'' ''secret1'' demoWorld =
     (Inr \<lparr>error = True, message = ''User not found'', userNotFound = Some True,
           userExists = None, issues = None\<rparr>, demoWorld)"
proof -
  have h: "findUnique (users demoWorld) ''carol@example.com'' = None"
    by (simp add: findUnique_def demoWorld_def demoAdmin_def shortUser_def)
  have v: "signinSchema demoEnv ''carol@example.com'' ''secret1'' = []"
    by (simp add: signinSchema_Nil demoEnv_def)
  from login_unknown_email [of demoWorld "''carol@example.com''" demoEnv "''secret1''"] h v
  show ?thesis by blast
qed

text \<open>
  The claim C4 as first stated fails on the validating variant: \<open>carol\<close> is in no row
  of the table, it is no e-mail address either, and the schema rejects the login.
\<close>

theorem login_unknown_email_counterexample:
  "findUnique (users demoWorld) ''carol'' = None \<and>
   loginFn demoEnv ''carol'' ''secret1'' demoWorld
     = (Inl (ZodError [invalid_string ''email'']), demoWorld)"
proof (intro conjI)
  show "findUnique (users demoWorld) ''carol'' = None"
    by (simp add: findUnique_def demoWorld_def demoAdmin_def shortUser_def)
  show "loginFn demoEnv ''carol'' ''secret1'' demoWorld
     = (Inl (ZodError [invalid_string ''email'']), demoWorld)"
    by (simp add: loginFn_def signinSchema_def demoEnv_def)
qed

text \<open>
  Claim C5, as amended. The signup schema accepts an input exactly when the e-mail is
  well formed, the password has at least six characters and both names are non-empty;
  with a well-formed e-mail and non-empty names it rejects \<open>abcde\<close> and accepts
  \<open>abcdef\<close>. An input the schema rejects changes neither the session nor the table.
  The validating variant checks the schema before anything else and throws the issues,
  whatever the table holds. The redirecting variant checks the schema after the lookup:
  for an e-mail that is not in the table it returns
  \<open>{ error: true, message: 'Invalid input', issues }\<close> and does not throw.
\<close>

theorem signup_validation:
  "(signupSchema env email password first_name last_name = [] \<longleftrightarrow>
      isEmail env email \<and> 6 \<le> length password \<and> first_name \<noteq> [] \<and> last_name \<noteq> []) \<and>
   (isEmail env email \<and> first_name \<noteq> [] \<and> last_name \<noteq> [] \<longrightarrow>
      signupSchema env email ''abcde'' first_name last_name = [too_small ''password'' 6] \<and>
      signupSchema env email ''abcdef'' first_name last_name = []) \<and>
   (signupSchema env email password first_name last_name \<noteq> [] \<longrightarrow>
      signupFn env email password first_name last_name w =
        (Inl (ZodError (signupSchema env email password first_name last_name)), w) \<and>
      (findUnique (users w) email = None \<longrightarrow>
         signupFn_redirect env email password first_name last_name redirectUrl w =
           (Inr \<lparr>error = True, message = ''Invalid input'', userNotFound = None,
                 userExists = None,
                 issues = Some (NotNull (signupSchema env email password first_name last_name))\<rparr>,
            w)))"
proof (intro conjI impI)
  show "signupSchema env email password first_name last_name = [] \<longleftrightarrow>
      isEmail env email \<and> 6 \<le> length password \<and> first_name \<noteq> [] \<and> last_name \<noteq> []"
    by (rule signupSchema_Nil)
next
  assume "isEmail env email \<and> first_name \<noteq> [] \<and> last_name \<noteq> []"
  then show "signupSchema env email ''abcde'' first_name last_name = [too_small ''password'' 6]"
    and "signupSchema env email ''abcdef'' first_name last_name = []"
    by (simp_all add: signupSchema_def Suc_le_eq)
next
  assume bad: "signupSchema env email password first_name last_name \<noteq> []"
  then show "signupFn env email password first_name last_name w =
        (Inl (ZodError (signupSchema env email password first_name last_name)), w)"
    by (rule signupFn_rejected)
  assume "findUnique (users w) email = None"
  with bad show "signupFn_redirect env email password first_name last_name redirectUrl w =
           (Inr \<lparr>error = True, message = ''Invalid input'', userNotFound = None,
                 userExists = None,
                 issues = Some (NotNull (signupSchema env email password first_name last_name))\<rparr>,
            w)"
    by (cases "signupSchema env email password first_name last_name")
       (simp_all add: signupFn_redirect_def)
qed

theorem signup_validation_witness:
  "isEmail demoEnv ''carol@example.com'' \<and> ''Carol'' \<noteq> [] \<and> ''New'' \<noteq> [] \<and>
   signupSchema demoEnv ''carol@example.com'' ''abcde'' ''Carol'' ''New'' = [too_small ''password'' 6] \<and>
   signupSchema demoEnv ''carol@example.com'' ''abcde'' ''Carol'' ''New'' \<noteq> [] \<and>
   signupSchema demoEnv ''carol@example.com'' ''abcdef'' ''Carol'' ''New'' = [] \<and>
   findUnique (users demoWorld) ''carol@example.com'' = None \<and>
   signupFn demoEnv ''carol@example.com'' ''abcde'' ''Carol'' ''New'' demoWorld =
     (Inl (ZodError [too_small ''password'' 6]), demoWorld) \<and>
   signupFn_redirect demoEnv ''carol@example.com'' ''abcde'' ''Carol'' ''New'' None demoWorld =
     (Inr \<lparr>error = True, message = ''Invalid input'', userNotFound = None, userExists = None,
           issues = Some (NotNull [too_small ''password'' 6])\<rparr>, demoWorld)"
proof -
  have e: "isEmail demoEnv ''carol@example.com'' \<and> ''Carol'' \<noteq> [] \<and> ''New'' \<noteq> []"
    by (simp add: demoEnv_def)
  have n: "findUnique (users demoWorld) ''carol@example.com'' = None"
    by (simp add: findUnique_def demoWorld_def demoAdmin_def shortUser_def)
  note t = signup_validation [of demoEnv "''carol@example.com''" "''abcde''" "''Carol''" "''New''"
             demoWorld None]
  from t e have five: "signupSchema demoEnv ''carol@example.com'' ''abcde'' ''Carol'' ''New''
                         = [too_small ''password'' 6]"
    and six: "signupSchema demoEnv ''carol@example.com'' ''abcdef'' ''Carol'' ''New'' = []"
    by blast+
  from five have bad: "signupSchema demoEnv ''carol@example.com'' ''abcde'' ''Carol'' ''New'' \<noteq> []"
    by simp
  from t bad n have
    "signupFn demoEnv ''carol@example.com'' ''abcde'' ''Carol'' ''New'' demoWorld =
       (Inl (ZodError (signupSchema demoEnv ''carol@example.com'' ''abcde'' ''Carol'' ''New'')),
        demoWorld)"
    and "signupFn_redirect demoEnv ''carol@example.com'' ''abcde'' ''Carol'' ''New'' None demoWorld =
       (Inr \<lparr>error = True, message = ''Invalid input'', userNotFound = None, userExists = None,
             issues = Some (NotNull
               (signupSchema demoEnv ''carol@example.com'' ''abcde'' ''Carol'' ''New''))\<rparr>,
        demoWorld)"
    by blast+
  with e n five six bad show ?thesis by simp
qed

text \<open>
  The claim C5 as first stated fails on both variants. The redirecting variant looks the
  e-mail up first: for the e-mail of the administrator and the password \<open>abcde\<close> it
  reports \<open>userExists\<close> and no issue. The validating variant throws on \<open>abcde\<close>
  where the claim has a returned object.
\<close>

theorem signup_validation_counterexample:
  "findUnique (users demoWorld) ''admin@example.com'' = Some demoAdmin \<and>
   signupSchema demoEnv ''admin@example.com'' ''abcde'' ''Admin'' ''User''
     = [too_small ''password'' 6] \<and>
   signupFn_redirect demoEnv ''admin@example.com'' ''abcde'' ''Admin'' ''User'' None demoWorld =
     (Inr \<lparr>error = True, message = ''User already exists'', userNotFound = None,
           userExists = Some True, issues = None\<rparr>, demoWorld) \<and>
   signupFn demoEnv ''carol@example.com'' ''abcde'' ''Carol'' ''New'' demoWorld =
     (Inl (ZodError [too_small ''password'' 6]), demoWorld)"
proof (intro conjI)
  show a: "findUnique (users demoWorld) ''admin@example.com'' = Some demoAdmin"
    by (rule findUnique_demoAdmin)
  show "signupSchema demoEnv ''admin@example.com'' ''abcde'' ''Admin'' ''User''
     = [too_small ''password'' 6]"
    by (simp add: signupSchema_def demoEnv_def)
  from a show "signupFn_redirect demoEnv ''admin@example.com'' ''abcde'' ''Admin'' ''User'' None
       demoWorld =
     (Inr \<lparr>error = True, message = ''User already exists'', userNotFound = None,
           userExists = Some True, issues = None\<rparr>, demoWorld)"
    by (simp add: signupFn_redirect_def)
  show "signupFn demoEnv ''carol@example.com'' ''abcde'' ''Carol'' ''New'' demoWorld =
     (Inl (ZodError [too_small ''password'' 6]), demoWorld)"
    by (simp add: signupFn_def signupSchema_def demoEnv_def)
qed

section \<open>A signup followed by a login\<close>

text \<open>
  The successful paths on the concrete installation: a signup into the empty table
  creates the row with the role \<open>user\<close> and writes the session, in both variants, and
  a login with the same e-mail and password afterwards writes the same session.
\<close>

lemma signup_scenario:
  "signupFn demoEnv ''admin@example.com'' ''adminpassword'' ''Admin'' ''User'' emptyWorld =
     (Inr \<lparr>error = False, message = ''user created'', userNotFound = None, userExists = None,
           issues = Some Null\<rparr>,
      \<lparr>users = [newAdmin],
       session = \<lparr>s_email = Some ''admin@example.com'', s_role = Some ''user'', s_id = Some 1\<rparr>\<rparr>)"
  by (simp add: signupFn_def signupSchema_def signupFn_handler_def findUnique_def create_def
        hashPassword_demoEnv updateSession_all emptyWorld_def newAdmin_def noSession_def Let_def)
     (simp add: demoEnv_def)

lemma signup_redirect_scenario:
  "signupFn_redirect demoEnv ''admin@example.com'' ''adminpassword'' ''Admin'' ''User'' None emptyWorld =
     (Inl (Redirect ''/'' 301),
      \<lparr>users = [newAdmin],
       session = \<lparr>s_email = Some ''admin@example.com'', s_role = Some ''user'', s_id = Some 1\<rparr>\<rparr>)"
  by (simp add: signupFn_redirect_def signupSchema_def findUnique_def create_def
        hashPassword_demoEnv updateSession_all emptyWorld_def newAdmin_def noSession_def Let_def)
     (simp add: demoEnv_def)

lemma login_after_signup_scenario:
  "loginFn demoEnv ''admin@example.com'' ''adminpassword''
     \<lparr>users = [newAdmin], session = noSession\<rparr> =
     (Inr \<lparr>error = False, message = ''Logged in'', userNotFound = Some False, userExists = None,
           issues = None\<rparr>,
      \<lparr>users = [newAdmin],
       session = \<lparr>s_email = Some ''admin@example.com'', s_role = Some ''user'', s_id = Some 1\<rparr>\<rparr>)"
  by (simp add: loginFn_def signinSchema_def loginFn_handler_def findUnique_def
        hashPassword_demoEnv updateSession_all newAdmin_def noSession_def Let_def)
     (simp add: demoEnv_def)

end
